theory Spec2Isabelle
  imports Main
begin

section \<open>Python texts\<close>

text \<open>
  A Python \<^verbatim>\<open>str\<close> is a sequence of Unicode code points, so a text is a list of
  code points. \<open>lit\<close> turns an ASCII literal of the source into such a list.
\<close>

type_synonym pystr = "nat list"

definition lit :: "string \<Rightarrow> pystr" where
  "lit s = map of_char s"

text \<open>
  The code points that \<^verbatim>\<open>str.strip()\<close> removes when called without argument:
  U+0009..U+000D, U+001C..U+0020, U+0085, U+00A0, U+1680, U+2000..U+200A, U+2028, U+2029,
  U+202F, U+205F and U+3000.
\<close>

definition is_space :: "nat \<Rightarrow> bool" where
  "is_space c \<longleftrightarrow>
     (9 \<le> c \<and> c \<le> 13) \<or> (28 \<le> c \<and> c \<le> 32) \<or> c = 133 \<or> c = 160 \<or> c = 5760 \<or>
     (8192 \<le> c \<and> c \<le> 8202) \<or> c = 8232 \<or> c = 8233 \<or> c = 8239 \<or> c = 8287 \<or> c = 12288"

definition strip :: "pystr \<Rightarrow> pystr" where
  "strip s = rev (dropWhile is_space (rev (dropWhile is_space s)))"

section \<open>Exceptions and values\<close>

text \<open>
  The exception classes that occur, with \<open>OtherException\<close> for any further class below
  \<^verbatim>\<open>Exception\<close> and \<open>OtherBaseException\<close> for any further class that derives from
  \<^verbatim>\<open>BaseException\<close> only. \<open>is_Exception\<close> is \<^verbatim>\<open>isinstance(e, Exception)\<close>.
\<close>

datatype exc_class =
    KeyError | IndexError | TypeError | AttributeError | ZeroDivisionError
  | SyntaxError | WidgetException | OtherException pystr
  | SystemExit | KeyboardInterrupt | GeneratorExit | OtherBaseException pystr

fun is_Exception :: "exc_class \<Rightarrow> bool" where
  "is_Exception SystemExit = False"
| "is_Exception KeyboardInterrupt = False"
| "is_Exception GeneratorExit = False"
| "is_Exception (OtherBaseException n) = False"
| "is_Exception c = True"

text \<open>
  The value handed to \<^verbatim>\<open>on_success\<close> and \<^verbatim>\<open>on_failure\<close> as \<^verbatim>\<open>result\<close>: the decoded JSON
  body (its objects have text keys only), or the body as a text when it is not JSON.
  A float is kept as mantissa and exponent; it is never inspected.
\<close>

datatype pyval =
    PNone | PBool bool | PInt int | PFloat int int | PStr pystr
  | PList "pyval list" | PDict "(pystr \<times> pyval) list"

datatype key = KInt int | KStr pystr

text \<open>
  The position that an integer index denotes in a sequence of the given length:
  an index below zero counts from the end, and an index outside the sequence
  denotes nothing.
\<close>

definition py_index :: "nat \<Rightarrow> int \<Rightarrow> nat option" where
  "py_index len i =
     (if 0 \<le> i \<and> i < int len then Some (nat i)
      else if i < 0 \<and> - int len \<le> i then Some (nat (int len + i))
      else None)"

text \<open>
  Subscription \<^verbatim>\<open>v[k]\<close>. A dict raises KeyError on a key it does not have. A list and a
  text raise IndexError on an integer outside them and TypeError on a text as index.
  No other value can be subscripted.
\<close>

fun getitem :: "pyval \<Rightarrow> key \<Rightarrow> exc_class + pyval" where
  "getitem (PDict kvs) (KStr k) =
     (case map_of kvs k of None \<Rightarrow> Inl KeyError | Some v \<Rightarrow> Inr v)"
| "getitem (PDict kvs) (KInt i) = Inl KeyError"
| "getitem (PList xs) (KInt i) =
     (case py_index (length xs) i of None \<Rightarrow> Inl IndexError | Some j \<Rightarrow> Inr (xs ! j))"
| "getitem (PList xs) (KStr k) = Inl TypeError"
| "getitem (PStr s) (KInt i) =
     (case py_index (length s) i of None \<Rightarrow> Inl IndexError | Some j \<Rightarrow> Inr (PStr [s ! j]))"
| "getitem (PStr s) (KStr k) = Inl TypeError"
| "getitem v k = Inl TypeError"

section \<open>The application state\<close>

text \<open>
  The widgets of the authoring form, in the order \<^verbatim>\<open>build\<close> adds them, and a widget
  produced by generated code.
\<close>

datatype widget =
    ApiKeyInput | PrefixInput | SuffixInput | PromptInput | GenerateBtn
  | CodeDisplay | RunBtn | GameWidget nat

text \<open>
  \<^verbatim>\<open>GameGeneratorApp\<close>: the texts of its five \<^verbatim>\<open>TextInput\<close>s and the children of
  \<^verbatim>\<open>self.layout\<close>.
\<close>

record app =
  api_key_input :: pystr
  prefix_input :: pystr
  suffix_input :: pystr
  prompt_input :: pystr
  code_display :: pystr
  layout :: "widget list"

definition form_layout :: "widget list" where
  "form_layout =
     [ApiKeyInput, PrefixInput, SuffixInput, PromptInput, GenerateBtn, CodeDisplay, RunBtn]"

text \<open>
  Assigning a text to the \<^verbatim>\<open>text\<close> property of a \<^verbatim>\<open>TextInput\<close>: the setter stores
  \<^verbatim>\<open>text.replace('\r\n', '\n')\<close>, every carriage return that a line feed follows
  being dropped, from left to right.
\<close>

fun replace_crlf :: "pystr \<Rightarrow> pystr" where
  "replace_crlf (c # d # cs) =
     (if c = 13 \<and> d = 10 then 10 # replace_crlf cs else c # replace_crlf (d # cs))"
| "replace_crlf cs = cs"

definition set_code_display :: "pystr \<Rightarrow> app \<Rightarrow> app" where
  "set_code_display t a = a\<lparr>code_display := replace_crlf t\<rparr>"

text \<open>
  How a handler ends: it returns, or an exception leaves it; either way with the state
  it has reached.
\<close>

datatype 'st outcome = Returned 'st | Propagated exc_class 'st

fun state_of :: "'st outcome \<Rightarrow> 'st" where
  "state_of (Returned a) = a"
| "state_of (Propagated c a) = a"

section \<open>Generating code\<close>

text \<open>
  The dict that \<^verbatim>\<open>call_grok_api\<close> hands to \<^verbatim>\<open>json.dumps\<close>, and the \<^verbatim>\<open>UrlRequest\<close> it
  creates. The temperature is kept as the literal of the source.
\<close>

record payload =
  model :: pystr
  messages :: "(pystr \<times> pystr) list"
  max_tokens :: int
  temperature :: pystr

record url_request =
  req_url :: pystr
  req_headers :: "(pystr \<times> pystr) list"
  req_body :: payload
  req_method :: pystr
  resp_status :: "nat option"

definition call_grok_api :: "pystr \<Rightarrow> pystr \<Rightarrow> url_request" where
  "call_grok_api full_prompt api_key =
     \<lparr>req_url = lit ''https://api.x.ai/v1/chat/completions'',
      req_headers = [(lit ''Authorization'', lit ''Bearer '' @ api_key),
                     (lit ''Content-Type'', lit ''application/json'')],
      req_body = \<lparr>model = lit ''grok-3'',
                  messages = [(lit ''user'', full_prompt)],
                  max_tokens = 16000,
                  temperature = lit ''0.7''\<rparr>,
      req_method = lit ''POST'',
      resp_status = None\<rparr>"

text \<open>
  \<^verbatim>\<open>generate_code\<close> returns the new state and the request it issued, if any.
\<close>

definition generate_code :: "app \<Rightarrow> app \<times> url_request option" where
  "generate_code a =
     (let api_key = strip (api_key_input a) in
      if api_key = [] then
        (set_code_display (lit ''Error: Please provide an API key'') a, None)
      else
        let prompt = strip (prompt_input a) in
        if prompt = [] then
          (set_code_display (lit ''Error: Please enter a prompt'') a, None)
        else
          let prefix = strip (prefix_input a);
              suffix = strip (suffix_input a);
              full_prompt = strip (prefix @ lit '' '' @ prompt @ lit '' '' @ suffix)
          in (a, Some (call_grok_api full_prompt api_key)))"

text \<open>
  The composer as section 4.1 of the specification words it, for comparison with
  \<open>generate_code\<close>.
\<close>

datatype compose_error = EmptyBody

definition compose_spec :: "pystr \<Rightarrow> pystr \<Rightarrow> pystr \<Rightarrow> compose_error + pystr" where
  "compose_spec prefix body suffix =
     (if strip body = [] then Inl EmptyBody
      else Inr (strip (strip prefix @ lit '' '' @ strip body @ lit '' '' @ strip suffix)))"

section \<open>The callbacks of the request\<close>

text \<open>\<^verbatim>\<open>result['choices'][0]['message']['content']\<close>, left to right.\<close>

definition content_of :: "pyval \<Rightarrow> exc_class + pyval" where
  "content_of result =
     (case getitem result (KStr (lit ''choices'')) of
        Inl e \<Rightarrow> Inl e
      | Inr choices \<Rightarrow>
          (case getitem choices (KInt 0) of
             Inl e \<Rightarrow> Inl e
           | Inr choice \<Rightarrow>
               (case getitem choice (KStr (lit ''message'')) of
                  Inl e \<Rightarrow> Inl e
                | Inr message \<Rightarrow> getitem message (KStr (lit ''content'')))))"

text \<open>
  The same assignment with the value \<^verbatim>\<open>on_success\<close> found: the setter calls
  \<^verbatim>\<open>replace\<close> on it, which a value that is no text does not have, so that
  AttributeError is raised.
\<close>

fun set_text :: "pyval \<Rightarrow> exc_class + pystr" where
  "set_text (PStr s) = Inr (replace_crlf s)"
| "set_text v = Inl AttributeError"

text \<open>
  \<^verbatim>\<open>on_success\<close>: the body of the \<^verbatim>\<open>try\<close>, then the handler for
  \<^verbatim>\<open>(KeyError, IndexError, TypeError)\<close>; any other exception leaves the callback.
\<close>

definition on_success_try :: "pyval \<Rightarrow> exc_class + pystr" where
  "on_success_try result =
     (case content_of result of Inl e \<Rightarrow> Inl e | Inr content \<Rightarrow> set_text content)"

definition on_success :: "app \<Rightarrow> url_request \<Rightarrow> pyval \<Rightarrow> app outcome" where
  "on_success a req result =
     (case on_success_try result of
        Inr t \<Rightarrow> Returned (a\<lparr>code_display := t\<rparr>)
      | Inl e \<Rightarrow>
          if e = KeyError \<or> e = IndexError \<or> e = TypeError
          then Returned (set_code_display (lit ''Error: Unable to parse API response'') a)
          else Propagated e a)"

text \<open>
  \<^verbatim>\<open>on_failure\<close> assigns a plain literal (it has no \<^verbatim>\<open>f\<close> prefix), so the braces
  stay as they are written.
\<close>

definition on_failure :: "app \<Rightarrow> url_request \<Rightarrow> pyval \<Rightarrow> app" where
  "on_failure a req result =
     set_code_display
       (lit ''Error: API request failed\<newline>\<newline>req: {req}\<newline>\<newline>result: {result}'') a"

section \<open>Running the generated code\<close>

text \<open>
  The generated code runs inside the process of the application. Whatever it does
  there is a step on the host: the application together with the rest of the
  interpreter's state that lasts from one run to the next (the builtins, the imported
  modules), of a type \<open>'s\<close> that is left open.
\<close>

type_synonym 's host = "app \<times> 's"

definition on_app :: "(app \<Rightarrow> app) \<Rightarrow> 's host \<Rightarrow> 's host" where
  "on_app f h = (f (fst h), snd h)"

text \<open>
  An exception object: its class, and what the call \<^verbatim>\<open>str(e)\<close> does, which returns a
  text or raises in turn (as it does when \<^verbatim>\<open>__str__\<close> returns something else).
\<close>

datatype 's py_exc =
  PyExc (exc_cls: exc_class) (exc_str: "'s host \<Rightarrow> (exc_class + pystr) \<times> 's host")

text \<open>
  What \<^verbatim>\<open>add_widget\<close> does with the object the entry point returned: it mounts it, or
  it raises.
\<close>

datatype 's pyinst = Mountable nat | Unmountable "'s py_exc"

text \<open>
  An object bound in the namespace, given by what calling it with no arguments does:
  it raises (as an object that is not callable does) or returns an object.
\<close>

datatype 's pyobj = PyObj (call0: "'s host \<Rightarrow> ('s py_exc + 's pyinst) \<times> 's host")

type_synonym 's namespace = "pystr \<rightharpoonup> 's pyobj"

text \<open>
  What \<^verbatim>\<open>exec(generated_code, namespace)\<close> does when it ends: it raises, or it returns
  and leaves the namespace filled. The interpreter is a parameter of \<open>run_game\<close>; it
  gets the text, the namespace and the host, and leaves the host as the text made it.
\<close>

datatype 's exec_outcome = Raises "'s py_exc" | Finishes "'s namespace"

type_synonym 's interpreter =
  "pystr \<Rightarrow> 's namespace \<Rightarrow> 's host \<Rightarrow> 's exec_outcome \<times> 's host"

definition add_widget :: "widget list \<Rightarrow> 's pyinst \<Rightarrow> 's py_exc + widget list" where
  "add_widget ws inst =
     (case inst of Mountable n \<Rightarrow> Inr (ws @ [GameWidget n]) | Unmountable e \<Rightarrow> Inl e)"

definition entry_point :: pystr where
  "entry_point = lit ''GeneratedGameWidget''"

text \<open>
  The body of the \<^verbatim>\<open>try\<close> in \<^verbatim>\<open>run_game\<close>: the host it ends in, or the exception
  and the host at the moment it was raised.
\<close>

definition run_game_try ::
  "'s interpreter \<Rightarrow> pystr \<Rightarrow> 's host \<Rightarrow> ('s py_exc \<times> 's host) + 's host" where
  "run_game_try exec generated_code h =
     (case exec generated_code Map.empty h of
        (Raises e, h1) \<Rightarrow> Inl (e, h1)
      | (Finishes namespace, h1) \<Rightarrow>
          (case namespace entry_point of
             None \<Rightarrow>
               Inr (on_app (set_code_display
                      (lit ''Error: Generated code does not define GeneratedGameWidget'')) h1)
           | Some cls \<Rightarrow>
               (case call0 cls h1 of
                  (Inl e, h2) \<Rightarrow> Inl (e, h2)
                | (Inr game_widget, h2) \<Rightarrow>
                    (let h3 = on_app (\<lambda>a. a\<lparr>layout := []\<rparr>) h2 in
                     case add_widget (layout (fst h3)) game_widget of
                       Inl e \<Rightarrow> Inl (e, h3)
                     | Inr ws \<Rightarrow> Inr (on_app (\<lambda>a. a\<lparr>layout := ws\<rparr>) h3)))))"

text \<open>
  The clause \<^verbatim>\<open>except Exception as e\<close>: an exception that is no instance of
  \<^verbatim>\<open>Exception\<close> goes on; for one that is, \<^verbatim>\<open>str(e)\<close> is called, under no further
  \<^verbatim>\<open>try\<close>.
\<close>

definition run_game_except :: "'s py_exc \<Rightarrow> 's host \<Rightarrow> 's host outcome" where
  "run_game_except e h =
     (if is_Exception (exc_cls e) then
        (case exc_str e h of
           (Inl c, h') \<Rightarrow> Propagated c h'
         | (Inr s, h') \<Rightarrow>
             Returned (on_app (set_code_display (lit ''Error running code: '' @ s)) h'))
      else Propagated (exc_cls e) h)"

definition run_game :: "'s interpreter \<Rightarrow> 's host \<Rightarrow> 's host outcome" where
  "run_game exec h =
     (let generated_code = code_display (fst h) in
      if generated_code = [] then
        Returned (on_app (set_code_display (lit ''Error: No valid code to run'')) h)
      else
        case run_game_try exec generated_code h of
          Inr h' \<Rightarrow> Returned h'
        | Inl (e, h') \<Rightarrow> run_game_except e h')"

text \<open>Two hosts that differ at most in the text of the code area.\<close>

definition slot_only :: "'s host \<Rightarrow> 's host \<Rightarrow> bool" where
  "slot_only h h' \<longleftrightarrow> h' = on_app (\<lambda>a. a\<lparr>code_display := code_display (fst h')\<rparr>) h"

section \<open>Sample inputs\<close>

text \<open>
  A filled form: no prefix, no suffix, the prompt of the specification's example, and a
  program that defines nothing in the code area.
\<close>

definition sample_app :: app where
  "sample_app =
     \<lparr>api_key_input = lit ''xai-key'', prefix_input = [], suffix_input = [],
      prompt_input = lit ''Build a snake game'', code_display = lit ''pass'',
      layout = form_layout\<rparr>"

text \<open>
  An exception whose \<^verbatim>\<open>str\<close> returns a text and touches nothing, and the objects
  that the sample programs bind: the dict of the builtins that \<^verbatim>\<open>exec\<close> adds to the
  namespace it is given, a module, the number \<^verbatim>\<open>5\<close>, the class \<^verbatim>\<open>dict\<close> (its instance
  has no \<^verbatim>\<open>fbind\<close> for \<^verbatim>\<open>add_widget\<close> to call), the class \<^verbatim>\<open>Widget\<close>, and a function
  that divides by zero.
\<close>

definition plain_exc :: "exc_class \<Rightarrow> pystr \<Rightarrow> 's py_exc" where
  "plain_exc c s = PyExc c (\<lambda>h. (Inr s, h))"

definition zero_division :: "nat py_exc" where
  "zero_division = plain_exc ZeroDivisionError (lit ''division by zero'')"

definition not_callable :: "string \<Rightarrow> nat pyobj" where
  "not_callable tp =
     PyObj (\<lambda>h. (Inl (plain_exc TypeError (39 # lit tp @ 39 # lit '' object is not callable'')), h))"

definition dict_class :: "nat pyobj" where
  "dict_class =
     PyObj (\<lambda>h. (Inr (Unmountable (plain_exc AttributeError
       (39 # lit ''dict'' @ 39 # lit '' object has no attribute '' @ 39 # lit ''fbind'' @ [39]))), h))"

definition widget_class :: "nat pyobj" where
  "widget_class = PyObj (\<lambda>h. (Inr (Mountable 0), h))"

definition failing_function :: "nat pyobj" where
  "failing_function = PyObj (\<lambda>h. (Inl zero_division, h))"

text \<open>
  Three programs of several lines: one raises an exception whose \<^verbatim>\<open>__str__\<close> raises,
  one empties the layout of the running application and then fails, and one counts its
  runs in the dict of the builtins and fails in the second.
\<close>

definition raising_str_text :: pystr where
  "raising_str_text =
     lit ''class E(Exception):\<newline>    __str__ = lambda self: 1/0\<newline>raise E()''"

definition clearing_text :: pystr where
  "clearing_text =
     lit ''from kivy.app import App\<newline>App.get_running_app().layout.clear_widgets()\<newline>1/0''"

definition counting_text :: pystr where
  "counting_text =
     lit ''import builtins\<newline>from kivy.uix.widget import Widget as GeneratedGameWidget\<newline>builtins.__dict__[0] = builtins.__dict__.get(0, 0) + 1\<newline>1/(2 - builtins.__dict__[0])''"

text \<open>
  What the Python interpreter does on these programs and on seven of one line. The
  state kept between runs is the number that the dict of the builtins holds at key
  \<^verbatim>\<open>0\<close>, none counting as zero. Every other text is answered as a text that does not
  parse; only the listed texts are used below.
\<close>

definition sample_exec :: "nat interpreter" where
  "sample_exec code ns h =
     (let g = ns(lit ''__builtins__'' \<mapsto> not_callable ''dict'') in
      if code = lit ''raise SystemExit'' then (Raises (plain_exc SystemExit []), h)
      else if code = lit ''1/0'' then (Raises zero_division, h)
      else if code = lit ''pass'' then (Finishes g, h)
      else if code = lit ''from kivy.uix.widget import Widget as GeneratedGameWidget'' then
        (Finishes (g(entry_point \<mapsto> widget_class)), h)
      else if code = lit ''def GeneratedGameWidget(): return 1/0'' then
        (Finishes (g(entry_point \<mapsto> failing_function)), h)
      else if code = lit ''GeneratedGameWidget = 5'' then
        (Finishes (g(entry_point \<mapsto> not_callable ''int'')), h)
      else if code = lit ''GeneratedGameWidget = dict'' then
        (Finishes (g(entry_point \<mapsto> dict_class)), h)
      else if code = raising_str_text then
        (Raises (PyExc (OtherException (lit ''E'')) (\<lambda>h. (Inl ZeroDivisionError, h))), h)
      else if code = clearing_text then
        (Raises zero_division, on_app (\<lambda>a. a\<lparr>layout := []\<rparr>) h)
      else if code = counting_text then
        (if snd h + 1 = 2 then (Raises zero_division, (fst h, snd h + 1))
         else (Finishes (g(lit ''builtins'' \<mapsto> not_callable ''module'',
                           entry_point \<mapsto> widget_class)),
               (fst h, snd h + 1)))
      else (Raises (plain_exc SyntaxError (lit ''invalid syntax (<string>, line 1)'')), h))"

text \<open>A request that was answered with status 401, and two response bodies.\<close>

definition sample_failed_req :: url_request where
  "sample_failed_req =
     (call_grok_api (lit ''Build a snake game'') (lit ''xai-key''))\<lparr>resp_status := Some 401\<rparr>"

definition sample_failed_body :: pyval where
  "sample_failed_body = PDict [(lit ''error'', PStr (lit ''Incorrect API key''))]"

definition null_content_body :: pyval where
  "null_content_body =
     PDict [(lit ''choices'',
             PList [PDict [(lit ''message'', PDict [(lit ''content'', PNone)])]])]"

text \<open>The interpreter that forgets the namespace it is given.\<close>

definition from_empty :: "'s interpreter \<Rightarrow> 's interpreter" where
  "from_empty exec code ns = exec code Map.empty"

section \<open>Stripping\<close>

lemma lit_space: "lit '' '' = [32]"
  by (simp add: lit_def)

lemma is_space_32: "is_space 32"
  by (simp add: is_space_def)

lemma strip_Cons_space: "is_space c \<Longrightarrow> strip (c # xs) = strip xs"
  by (simp add: strip_def)

lemma strip_snoc_space:
  assumes c: "is_space c"
  shows "strip (xs @ [c]) = strip xs"
proof (cases "\<forall>x\<in>set xs. is_space x")
  case True
  then have d: "dropWhile is_space xs = []" by simp
  show ?thesis by (simp add: strip_def dropWhile_append d c True)
next
  case False
  with c show ?thesis by (auto simp add: strip_def dropWhile_append)
qed

text \<open>A text that neither starts nor ends with white space is left as it is.\<close>

lemma strip_id:
  assumes "xs \<noteq> []" "\<not> is_space (hd xs)" "\<not> is_space (last xs)"
  shows "strip xs = xs"
proof -
  from assms(1,2) have a: "dropWhile is_space xs = xs"
    by (cases xs) simp_all
  from assms(1,3) have b: "dropWhile is_space (rev xs) = rev xs"
    by (cases "rev xs") (simp_all add: last_rev [symmetric] hd_rev)
  show ?thesis by (simp add: strip_def a b)
qed

text \<open>A stripped text, when it is not empty, starts and ends with something else.\<close>

lemma strip_ends:
  assumes "strip s \<noteq> []"
  shows "\<not> is_space (hd (strip s))" and "\<not> is_space (last (strip s))"
proof -
  let ?t = "dropWhile is_space s"
  let ?u = "dropWhile is_space (rev ?t)"
  have u: "?u \<noteq> []" using assms by (simp add: strip_def)
  then have "\<not> is_space (hd ?u)" by (rule hd_dropWhile)
  then show "\<not> is_space (last (strip s))" using u by (simp add: strip_def last_rev)
  have "?t = rev (takeWhile is_space (rev ?t) @ ?u)"
    by (simp only: takeWhile_dropWhile_id rev_rev_ident)
  then have t: "?t = strip s @ rev (takeWhile is_space (rev ?t))"
    by (simp only: rev_append strip_def)
  then have "hd ?t = hd (strip s)" using assms by (metis hd_append2)
  moreover have "?t \<noteq> []" using t assms by (metis append_is_Nil_conv)
  then have "\<not> is_space (hd ?t)" by (rule hd_dropWhile)
  ultimately show "\<not> is_space (hd (strip s))" by simp
qed

text \<open>
  The outer \<open>strip\<close> of the composition removes exactly the separating space next to
  an empty prefix or suffix.
\<close>

lemma strip_join:
  assumes "strip b \<noteq> []"
  shows "strip (strip p @ [32] @ strip b @ [32] @ strip s) =
         (if strip p = [] then [] else strip p @ [32]) @ strip b @
         (if strip s = [] then [] else 32 # strip s)"
proof -
  let ?L = "(if strip p = [] then [] else strip p @ [32])"
  let ?R = "(if strip s = [] then [] else 32 # strip s)"
  let ?M = "?L @ strip b @ ?R"
  have eq: "strip (strip p @ [32] @ strip b @ [32] @ strip s) = strip ?M"
  proof -
    have 1: "strip (strip p @ [32] @ strip b @ [32] @ strip s) =
             strip (?L @ strip b @ [32] @ strip s)"
      using strip_Cons_space [OF is_space_32] by simp
    have 2: "strip (?L @ strip b @ [32] @ strip s) = strip ?M"
    proof (cases "strip s = []")
      case True
      have "strip ((?L @ strip b) @ [32]) = strip (?L @ strip b)"
        by (rule strip_snoc_space [OF is_space_32])
      with True show ?thesis by simp
    next
      case False
      then show ?thesis by simp
    qed
    from 1 2 show ?thesis by simp
  qed
  have ne: "?M \<noteq> []" using assms by simp
  have h: "\<not> is_space (hd ?M)"
    using strip_ends(1) [of p] strip_ends(1) [OF assms] assms by (simp add: hd_append)
  have l: "\<not> is_space (last ?M)"
    using strip_ends(2) [of s] strip_ends(2) [OF assms] assms by (simp add: last_append)
  show ?thesis using eq strip_id [OF ne h l] by simp
qed

section \<open>Texts without carriage return\<close>

text \<open>The text input stores a text that holds no carriage return as it is.\<close>

lemma replace_crlf_no_cr: "13 \<notin> set s \<Longrightarrow> replace_crlf s = s"
  by (induction s rule: replace_crlf.induct) auto

lemma set_code_display_no_cr:
  "13 \<notin> set t \<Longrightarrow> set_code_display t a = a\<lparr>code_display := t\<rparr>"
  by (simp add: set_code_display_def replace_crlf_no_cr)

lemma messages_no_cr:
  "13 \<notin> set (lit ''Error: Please provide an API key'')"
  "13 \<notin> set (lit ''Error: Please enter a prompt'')"
  "13 \<notin> set (lit ''Error: Unable to parse API response'')"
  "13 \<notin> set (lit ''Error: API request failed\<newline>\<newline>req: {req}\<newline>\<newline>result: {result}'')"
  "13 \<notin> set (lit ''Error: No valid code to run'')"
  "13 \<notin> set (lit ''Error: Generated code does not define GeneratedGameWidget'')"
  by (simp_all add: lit_def)

lemmas set_message = messages_no_cr [THEN set_code_display_no_cr]

section \<open>The prompt composer and the credential\<close>

text \<open>
  Claim C9. When the stripped API key is empty, \<open>generate_code\<close> writes
  \<^verbatim>\<open>Error: Please provide an API key\<close> and issues no request, whatever the prompt, the
  prefix and the suffix hold. The key is looked at first: with an empty prompt as well,
  the message is still the one about the key.
\<close>

theorem generate_code_empty_key:
  assumes "strip (api_key_input a) = []"
  shows "generate_code a =
           (a\<lparr>code_display := lit ''Error: Please provide an API key''\<rparr>, None) \<and>
         code_display (fst (generate_code a)) \<noteq> lit ''Error: Please enter a prompt''"
  using assms by (simp add: generate_code_def set_message) (simp add: lit_def)

theorem generate_code_empty_key_witness:
  "strip (api_key_input (sample_app\<lparr>api_key_input := lit ''  '', prompt_input := []\<rparr>)) = [] \<and>
   strip (prompt_input (sample_app\<lparr>api_key_input := lit ''  '', prompt_input := []\<rparr>)) = [] \<and>
   generate_code (sample_app\<lparr>api_key_input := lit ''  '', prompt_input := []\<rparr>) =
     (sample_app\<lparr>api_key_input := lit ''  '', prompt_input := [],
                 code_display := lit ''Error: Please provide an API key''\<rparr>, None)"
  using generate_code_empty_key
    [of "sample_app\<lparr>api_key_input := lit ''  '', prompt_input := []\<rparr>"]
  by (simp add: strip_def lit_def is_space_def)

text \<open>
  Claim C7. With a key, a prompt that is empty once stripped makes \<open>generate_code\<close>
  write \<^verbatim>\<open>Error: Please enter a prompt\<close> and issue no request, whatever the prefix and
  the suffix hold; this is where the specification's composer answers \<open>EmptyBody\<close>.
  With a prompt that is not empty a request is issued and nothing is written, so an
  empty prefix or suffix is no error.
\<close>

theorem generate_code_empty_body:
  assumes "strip (api_key_input a) \<noteq> []"
  shows "(strip (prompt_input a) = [] \<longrightarrow>
            generate_code a = (a\<lparr>code_display := lit ''Error: Please enter a prompt''\<rparr>, None) \<and>
            compose_spec (prefix_input a) (prompt_input a) (suffix_input a) = Inl EmptyBody) \<and>
         (strip (prompt_input a) \<noteq> [] \<longrightarrow>
            fst (generate_code a) = a \<and> snd (generate_code a) \<noteq> None \<and>
            compose_spec (prefix_input a) (prompt_input a) (suffix_input a) \<noteq> Inl EmptyBody)"
  using assms by (simp add: generate_code_def compose_spec_def Let_def set_message)

theorem generate_code_empty_body_witness:
  "strip (api_key_input (sample_app\<lparr>prompt_input := lit '' ''\<rparr>)) \<noteq> [] \<and>
   strip (prompt_input (sample_app\<lparr>prompt_input := lit '' ''\<rparr>)) = [] \<and>
   generate_code (sample_app\<lparr>prompt_input := lit '' ''\<rparr>) =
     (sample_app\<lparr>prompt_input := lit '' '',
                 code_display := lit ''Error: Please enter a prompt''\<rparr>, None) \<and>
   strip (api_key_input sample_app) \<noteq> [] \<and>
   strip (prompt_input sample_app) \<noteq> [] \<and>
   strip (prefix_input sample_app) = [] \<and> strip (suffix_input sample_app) = [] \<and>
   fst (generate_code sample_app) = sample_app \<and> snd (generate_code sample_app) \<noteq> None"
  using generate_code_empty_body [of "sample_app\<lparr>prompt_input := lit '' ''\<rparr>"]
    generate_code_empty_body [of sample_app]
  by (simp add: sample_app_def strip_def lit_def is_space_def)

text \<open>
  Claim C3. With a key and a prompt that is not empty once stripped, the request that
  \<open>generate_code\<close> issues carries the stripped prefix, prompt and suffix joined by
  single spaces and stripped again, which is what the specification's composer returns.
  The result is the stripped prompt with the stripped prefix and a space before it and
  a space and the stripped suffix after it, each only when that part is not empty. For
  an empty prefix and suffix and the prompt \<^verbatim>\<open>Build a snake game\<close> it is that prompt.
\<close>

theorem generate_code_full_prompt:
  assumes "strip (api_key_input a) \<noteq> []" and "strip (prompt_input a) \<noteq> []"
  shows "generate_code a =
           (a, Some (call_grok_api
                 (strip (strip (prefix_input a) @ lit '' '' @ strip (prompt_input a) @ lit '' '' @
                         strip (suffix_input a)))
                 (strip (api_key_input a)))) \<and>
         compose_spec (prefix_input a) (prompt_input a) (suffix_input a) =
           Inr (strip (strip (prefix_input a) @ lit '' '' @ strip (prompt_input a) @ lit '' '' @
                       strip (suffix_input a))) \<and>
         strip (strip (prefix_input a) @ lit '' '' @ strip (prompt_input a) @ lit '' '' @
                strip (suffix_input a)) =
           (if strip (prefix_input a) = [] then [] else strip (prefix_input a) @ lit '' '') @
           strip (prompt_input a) @
           (if strip (suffix_input a) = [] then [] else lit '' '' @ strip (suffix_input a)) \<and>
         compose_spec [] (lit ''Build a snake game'') [] = Inr (lit ''Build a snake game'')"
proof -
  have "compose_spec [] (lit ''Build a snake game'') [] = Inr (lit ''Build a snake game'')"
    by (simp add: compose_spec_def strip_def lit_def is_space_def)
  then show ?thesis
    using assms strip_join [OF assms(2), of "prefix_input a" "suffix_input a"]
    by (simp add: generate_code_def compose_spec_def Let_def lit_space)
qed

theorem generate_code_full_prompt_witness:
  "strip (api_key_input sample_app) \<noteq> [] \<and> strip (prompt_input sample_app) \<noteq> [] \<and>
   generate_code sample_app =
     (sample_app, Some (call_grok_api (lit ''Build a snake game'') (lit ''xai-key'')))"
  using generate_code_full_prompt [of sample_app]
  by (simp add: sample_app_def strip_def lit_def is_space_def)

section \<open>The callbacks\<close>

text \<open>
  Claim C2. The message that \<open>on_failure\<close> writes is the literal of the source, with
  the braces and the names between them as written: it is the same for a response with
  status 401 and one with status 500, and holds neither the status nor the body.
\<close>

theorem on_failure_literal:
  "on_failure sample_app sample_failed_req sample_failed_body =
     sample_app\<lparr>code_display :=
       lit ''Error: API request failed'' @ [10, 10] @ lit ''req: {req}'' @ [10, 10] @
       lit ''result: {result}''\<rparr> \<and>
   on_failure sample_app sample_failed_req sample_failed_body =
     on_failure sample_app (sample_failed_req\<lparr>resp_status := Some 500\<rparr>)
       (PStr (lit ''Internal Server Error''))"
  by (simp add: on_failure_def set_message) (simp add: lit_def)

lemma on_failure_ignores_response:
  "on_failure a req result = on_failure a req' result'"
  by (simp add: on_failure_def)

text \<open>Subscription raises one of the three exceptions that \<open>on_success\<close> handles.\<close>

lemma getitem_errors:
  "getitem v k = Inl e \<Longrightarrow> e = KeyError \<or> e = IndexError \<or> e = TypeError"
  by (induction v k rule: getitem.induct) (auto split: option.splits)

lemma content_of_errors:
  "content_of result = Inl e \<Longrightarrow> e = KeyError \<or> e = IndexError \<or> e = TypeError"
  by (auto simp add: content_of_def split: sum.splits dest: getitem_errors)

text \<open>
  A content that is a text is shown, as the text input stores it; a path that cannot
  be followed gives the message about parsing. So do an empty object and a body that
  is not JSON.
\<close>

lemma on_success_text:
  "content_of result = Inr (PStr s) \<Longrightarrow>
     on_success a req result = Returned (a\<lparr>code_display := replace_crlf s\<rparr>)"
  by (simp add: on_success_def on_success_try_def)

lemma on_success_parse_error:
  assumes "content_of result = Inl e"
  shows "on_success a req result =
           Returned (a\<lparr>code_display := lit ''Error: Unable to parse API response''\<rparr>)"
  using assms content_of_errors [OF assms]
  by (auto simp add: on_success_def on_success_try_def set_message)

lemma on_success_expected_shape:
  "on_success a req
     (PDict [(lit ''choices'',
              PList [PDict [(lit ''message'', PDict [(lit ''content'', PStr (lit ''X''))])]])]) =
   Returned (a\<lparr>code_display := lit ''X''\<rparr>)"
  by (simp add: on_success_def on_success_try_def content_of_def py_index_def lit_def)

lemma on_success_empty_object:
  "on_success a req (PDict []) =
     Returned (a\<lparr>code_display := lit ''Error: Unable to parse API response''\<rparr>)"
  by (simp add: on_success_def on_success_try_def content_of_def set_message)

lemma on_success_not_json:
  "on_success a req (PStr body) =
     Returned (a\<lparr>code_display := lit ''Error: Unable to parse API response''\<rparr>)"
  by (simp add: on_success_def on_success_try_def content_of_def set_message)

text \<open>
  Claim C4. For the body \<^verbatim>\<open>{"choices":[{"message":{"content":null}}]}\<close> the path is
  there, its content is \<^verbatim>\<open>None\<close>, and \<open>on_success\<close> neither shows a generated text nor
  writes the message about parsing: the exception of the assignment is none of the
  three it handles, and the code area keeps what it held.
\<close>

theorem on_success_null_content:
  "content_of null_content_body = Inr PNone \<and>
   on_success sample_app sample_failed_req null_content_body =
     Propagated AttributeError sample_app"
  by (simp add: on_success_def on_success_try_def content_of_def null_content_body_def
      py_index_def lit_def)

section \<open>The executor\<close>

text \<open>
  Claim C8. With an empty code area \<open>run_game\<close> writes \<^verbatim>\<open>Error: No valid code to run\<close>
  and returns; the result is the same for every interpreter, and the rest of the host
  is untouched, so nothing is evaluated.
\<close>

theorem run_game_empty:
  "run_game exec (a\<lparr>code_display := []\<rparr>, w) =
     Returned (a\<lparr>code_display := lit ''Error: No valid code to run''\<rparr>, w)"
  by (simp add: run_game_def on_app_def set_message)

text \<open>
  Claim C5, as stated, fails. The counting program defines the entry point, and its
  first run mounts a widget. It also leaves a number in the dict of the builtins, which
  no new namespace hides: the second run of the same text finds it and ends with
  \<^verbatim>\<open>Error running code: division by zero\<close>, where a run from the same form without
  the first run behind it mounts a widget.
\<close>

theorem run_game_second_run_differs:
  "run_game sample_exec (sample_app\<lparr>code_display := counting_text\<rparr>, 0) =
     Returned (sample_app\<lparr>code_display := counting_text, layout := [GameWidget 0]\<rparr>, 1) \<and>
   run_game sample_exec
     (sample_app\<lparr>code_display := counting_text, layout := [GameWidget 0]\<rparr>, 1) =
     Returned
       (sample_app\<lparr>code_display := lit ''Error running code: division by zero'',
                   layout := [GameWidget 0]\<rparr>, 2) \<and>
   run_game sample_exec
     (sample_app\<lparr>code_display := counting_text, layout := [GameWidget 0]\<rparr>, 0) =
     Returned (sample_app\<lparr>code_display := counting_text, layout := [GameWidget 0]\<rparr>, 1)"
  by (simp add: run_game_def run_game_try_def run_game_except_def add_widget_def on_app_def
      set_code_display_def sample_exec_def counting_text_def clearing_text_def
      raising_str_text_def entry_point_def widget_class_def zero_division_def plain_exc_def
      lit_def)

text \<open>
  Claim C5, amended. Every run starts the evaluation from a new, empty namespace:
  \<open>run_game\<close> behaves as it does with the interpreter that forgets the namespace it is
  given, in one run and in a second run after it. So no name that one evaluation bound
  in its namespace is in the namespace of the next; what lies outside the namespace is
  shared.
\<close>

theorem run_game_fresh_namespace:
  "run_game exec h = run_game (from_empty exec) h \<and>
   run_game exec (state_of (run_game exec h)) =
     run_game (from_empty exec) (state_of (run_game (from_empty exec) h))"
proof -
  have body: "run_game_try (from_empty exec) code h' = run_game_try exec code h'" for code h'
    by (simp add: run_game_try_def from_empty_def)
  have "run_game exec h' = run_game (from_empty exec) h'" for h'
    by (simp add: run_game_def Let_def body)
  then show ?thesis by simp
qed










lemma slot_only_layout:
  assumes "slot_only h h'"
  shows "layout (fst h') = layout (fst h) \<and> snd h' = snd h"
proof -
  from assms have eq: "h' = ((fst h)\<lparr>code_display := code_display (fst h')\<rparr>, snd h)"
    by (simp add: slot_only_def on_app_def)
  then have a: "fst h' = (fst h)\<lparr>code_display := code_display (fst h')\<rparr>"
    by (metis fst_conv)
  from eq have s: "snd h' = snd h"
    by (metis snd_conv)
  from a have "layout (fst h') = layout ((fst h)\<lparr>code_display := code_display (fst h')\<rparr>)"
    by (rule arg_cong)
  with s show ?thesis by simp
qed




text \<open>
  The remaining path: the entry point returned an object that \<^verbatim>\<open>add_widget\<close> does not
  take. The handler then starts from a layout that is already empty.
\<close>

lemma run_game_mount_rejected:
  assumes "code_display a \<noteq> []"
    and "exec (code_display a) Map.empty (a, w) = (Finishes ns, h1)"
    and "ns entry_point = Some cls" and "call0 cls h1 = (Inr (Unmountable e), h2)"
  shows "run_game exec (a, w) = run_game_except e (on_app (\<lambda>a. a\<lparr>layout := []\<rparr>) h2)"
  using assms by (simp add: run_game_def run_game_try_def add_widget_def)

end
